theory Spec2Isabelle
  imports Main "HOL-Library.Word"
begin

section \<open>The micro network server command (server/server.go)\<close>

text \<open>
  The file declares four package variables (\<open>Name\<close>, \<open>Address\<close>, \<open>Router\<close>,
  \<open>Network\<close>), a \<open>srv\<close> wrapper with \<open>start\<close> and \<open>stop\<close>, the function \<open>run\<close>
  behind the command's action, and \<open>Commands\<close>, which assembles the \<open>server\<close> command from
  its base flags and the registered plugins.

  The collaborators (the command-line context, the plugins, the service, the router, the
  logger, \<open>os.Exit\<close>) live outside the file. Each call made to one of them is recorded as
  an event of a trace, in program order; what such a call returns is a parameter.
\<close>

subsection \<open>Command-line context\<close>

text \<open>
  \<open>cli.Context\<close>: the parsed flag values. \<open>ctx.String(k)\<close> is the empty string and
  \<open>ctx.Int(k)\<close> is 0 for a key that is not set. Go's \<open>int\<close> is taken at 64 bits.
\<close>

record "context" =
  strings :: "(string \<times> string) list"
  ints :: "(string \<times> 64 word) list"

definition ctx_String :: "context \<Rightarrow> string \<Rightarrow> string" where
  "ctx_String ctx k = (case map_of (strings ctx) k of None \<Rightarrow> [] | Some v \<Rightarrow> v)"

definition ctx_Int :: "context \<Rightarrow> string \<Rightarrow> 64 word" where
  "ctx_Int ctx k = (case map_of (ints ctx) k of None \<Rightarrow> 0 | Some n \<Rightarrow> n)"

subsection \<open>Flags, commands and plugins\<close>

datatype flag =
    StringFlag (flag_Name: string) (flag_Usage: string) (flag_EnvVars: "string list")
  | OtherFlag (flag_Name: string)

datatype command =
  Command (cmd_Name: string) (cmd_Usage: string) (cmd_Flags: "flag list")
    (cmd_Subcommands: "command list")

text \<open>
  A plugin: its \<open>String()\<close>, the flags and commands it contributes, and the error value
  its \<open>Init\<close> returns (\<open>None\<close> is Go's \<open>nil\<close>). The registry \<open>Plugins()\<close> is
  declared elsewhere in the package: the list it returns is a parameter of \<open>run\<close> and of
  \<open>Commands\<close>.
\<close>

record plugin =
  p_String :: string
  p_Flags :: "flag list"
  p_Commands :: "command list"
  p_Init :: "string option"

subsection \<open>Process state and events\<close>

text \<open>\<open>time.Duration\<close> is an \<open>int64\<close> count of nanoseconds.\<close>

type_synonym Duration = "64 word"

definition Second :: Duration where
  "Second = 1000000000"

datatype event =
    LogInit
  | PluginInit string
  | CtxString string
  | CtxInt string
  | NewService string string Duration Duration
  | NewRouter string string string string
  | NewTransport "string list"
  | NewServer
  | LogInfo string
  | LogError string
  | RouterStart
  | ServiceRun
  | RouterStop
  | OsExit int

text \<open>The package variables of lines 17-26 and the trace of calls made so far.\<close>

record proc =
  Name :: string
  Address :: string
  Router :: string
  Network :: string
  trace :: "event list"

definition initial :: proc where
  "initial = \<lparr>Name = ''go.micro.server'', Address = '':8087'', Router = '':9093'',
     Network = ''local'', trace = []\<rparr>"

text \<open>
  What the collaborators return: the errors of \<open>router.Start\<close>, \<open>service.Run\<close> and
  \<open>router.Stop\<close> (\<open>None\<close> is \<open>nil\<close>, \<open>Some m\<close> an error with message \<open>m\<close>), the
  service's server id and the name of its client registry. Each call is taken to return.
\<close>

record env =
  router_Start :: "string option"
  service_Run :: "string option"
  router_Stop :: "string option"
  server_Id :: string
  client_Registry :: string

definition emit :: "event \<Rightarrow> proc \<Rightarrow> proc" where
  "emit e s = s\<lparr>trace := trace s @ [e]\<rparr>"

definition lookup_String :: "context \<Rightarrow> string \<Rightarrow> proc \<Rightarrow> string \<times> proc" where
  "lookup_String ctx k s = (ctx_String ctx k, emit (CtxString k) s)"

definition lookup_Int :: "context \<Rightarrow> string \<Rightarrow> proc \<Rightarrow> 64 word \<times> proc" where
  "lookup_Int ctx k s = (ctx_Int ctx k, emit (CtxInt k) s)"

subsection \<open>newServer, start, stop\<close>

definition newServer :: "proc \<Rightarrow> proc" where
  "newServer s = emit NewServer (emit (NewTransport [Network s]) s)"

definition srv_start :: "env \<Rightarrow> proc \<Rightarrow> string option \<times> proc" where
  "srv_start e s =
     (let s1 = emit (LogInfo ''starting micro server'') s;
          s2 = emit RouterStart s1
      in case router_Start e of
           Some err \<Rightarrow> (Some err, s2)
         | None \<Rightarrow> (None, s2))"

definition srv_stop :: "env \<Rightarrow> proc \<Rightarrow> string option \<times> proc" where
  "srv_stop e s =
     (let s1 = emit (LogInfo ''stopping server'') s;
          s2 = emit RouterStop s1
      in case router_Stop e of
           Some err \<Rightarrow> (Some (''failed to stop router: '' @ err), s2)
         | None \<Rightarrow> (None, s2))"

subsection \<open>run\<close>

text \<open>
  Lines 77-79: \<open>p.Init(ctx)\<close> for each plugin in turn; the error it returns is dropped.
  A plugin is taken not to assign the package variables.
\<close>

definition plugin_Init :: "plugin \<Rightarrow> context \<Rightarrow> proc \<Rightarrow> string option \<times> proc" where
  "plugin_Init p ctx s = (p_Init p, emit (PluginInit (p_String p)) s)"

fun init_plugins :: "context \<Rightarrow> plugin list \<Rightarrow> proc \<Rightarrow> proc" where
  "init_plugins ctx [] s = s"
| "init_plugins ctx (p # ps) s = init_plugins ctx ps (snd (plugin_Init p ctx s))"

text \<open>
  Lines 81-92, one conditional each. The third tests \<open>router_address\<close> and assigns the
  lookup of \<open>router\<close>; the fourth tests \<open>network_address\<close> and assigns the lookup of
  \<open>network\<close>.
\<close>

definition resolve_Name :: "context \<Rightarrow> proc \<Rightarrow> proc" where
  "resolve_Name ctx s =
     (let (v, s1) = lookup_String ctx ''server_name'' s
      in if length v > 0
         then (let (w, s2) = lookup_String ctx ''server_name'' s1 in s2\<lparr>Name := w\<rparr>)
         else s1)"

definition resolve_Address :: "context \<Rightarrow> proc \<Rightarrow> proc" where
  "resolve_Address ctx s =
     (let (v, s1) = lookup_String ctx ''address'' s
      in if length v > 0
         then (let (w, s2) = lookup_String ctx ''address'' s1 in s2\<lparr>Address := w\<rparr>)
         else s1)"

definition resolve_Router :: "context \<Rightarrow> proc \<Rightarrow> proc" where
  "resolve_Router ctx s =
     (let (v, s1) = lookup_String ctx ''router_address'' s
      in if length v > 0
         then (let (w, s2) = lookup_String ctx ''router'' s1 in s2\<lparr>Router := w\<rparr>)
         else s1)"

definition resolve_Network :: "context \<Rightarrow> proc \<Rightarrow> proc" where
  "resolve_Network ctx s =
     (let (v, s1) = lookup_String ctx ''network_address'' s
      in if length v > 0
         then (let (w, s2) = lookup_String ctx ''network'' s1 in s2\<lparr>Network := w\<rparr>)
         else s1)"

definition resolve :: "context \<Rightarrow> proc \<Rightarrow> proc" where
  "resolve ctx s =
     resolve_Network ctx (resolve_Router ctx (resolve_Address ctx (resolve_Name ctx s)))"

text \<open>
  How \<open>run\<close> leaves: by returning, or through \<open>os.Exit\<close> with a status. The options
  \<open>srvOpts\<close> are not used by the body and are left out.
\<close>

datatype exit = Returned | Exited int

definition run :: "env \<Rightarrow> context \<Rightarrow> plugin list \<Rightarrow> proc \<Rightarrow> exit \<times> proc" where
  "run e ctx plugins s0 =
     (let s1 = emit LogInit s0;
          s2 = init_plugins ctx plugins s1;
          s3 = resolve ctx s2;
          (ttl, s4) = lookup_Int ctx ''register_ttl'' s3;
          (interval, s5) = lookup_Int ctx ''register_interval'' s4;
          s6 = emit (NewService (Name s5) (Address s5) (ttl * Second) (interval * Second)) s5;
          s7 = emit (NewRouter (server_Id e) (Router s6) (Network s6) (client_Registry e)) s6;
          s8 = newServer s7;
          (err, s9) = srv_start e s8
      in case err of
           Some m \<Rightarrow>
             (Exited 1, emit (OsExit 1) (emit (LogError (''failed to start: '' @ m)) s9))
         | None \<Rightarrow>
             (let s10 = emit (LogInfo ''successfully started'') s9;
                  s11 = emit ServiceRun s10
              in case service_Run e of
                   Some m \<Rightarrow>
                     (Exited 1,
                      emit (OsExit 1) (emit (LogError (''failed with error '' @ m)) s11))
                 | None \<Rightarrow>
                     (let (err2, s12) = srv_stop e s11
                      in case err2 of
                           Some m \<Rightarrow>
                             (Exited 1,
                              emit (OsExit 1) (emit (LogError (''failed to stop: '' @ m)) s12))
                         | None \<Rightarrow>
                             (Returned, emit (LogInfo ''successfully stopped'') s12))))"

subsection \<open>Commands\<close>

text \<open>
  What the command-line layer sees of the action (lines 156-159): the error value it
  returns, or the end of the process.
\<close>

datatype action_result = ActionReturned "string option" | ProcessExited int

definition action :: "env \<Rightarrow> context \<Rightarrow> plugin list \<Rightarrow> proc \<Rightarrow> action_result \<times> proc" where
  "action e ctx plugins s =
     (case run e ctx plugins s of
        (Exited n, s') \<Rightarrow> (ProcessExited n, s')
      | (Returned, s') \<Rightarrow> (ActionReturned None, s'))"

definition base_Flags :: "flag list" where
  "base_Flags =
     [StringFlag ''address'' ''Set the micro server address :8083'' [''MICRO_SERVER_ADDRESS''],
      StringFlag ''router_address'' ''Set the micro router address :9093''
        [''MICRO_ROUTER_ADDRESS''],
      StringFlag ''network_address'' ''Set the micro network id :local''
        [''MICRO_NETWORK_ADDRESS'']]"

definition base_command :: command where
  "base_command = Command ''server'' ''Run the micro network server'' base_Flags []"

text \<open>Lines 162-170: the loop over the plugins, sub-commands first, then flags.\<close>

fun add_plugins :: "plugin list \<Rightarrow> command \<Rightarrow> command" where
  "add_plugins [] c = c"
| "add_plugins (p # ps) c =
     (let c1 = (if length (p_Commands p) > 0
                then Command (cmd_Name c) (cmd_Usage c) (cmd_Flags c)
                       (cmd_Subcommands c @ p_Commands p)
                else c);
          c2 = (if length (p_Flags p) > 0
                then Command (cmd_Name c1) (cmd_Usage c1) (cmd_Flags c1 @ p_Flags p)
                       (cmd_Subcommands c1)
                else c1)
      in add_plugins ps c2)"

definition Commands :: "plugin list \<Rightarrow> command list" where
  "Commands plugins = [add_plugins plugins base_command]"

subsection \<open>Reading a trace\<close>

fun is_PluginInit :: "event \<Rightarrow> bool" where
  "is_PluginInit (PluginInit n) = True"
| "is_PluginInit _ = False"

text \<open>The string lookups of the context: the calls configuration resolution makes.\<close>

fun is_CtxString :: "event \<Rightarrow> bool" where
  "is_CtxString (CtxString k) = True"
| "is_CtxString _ = False"

fun is_NewService :: "event \<Rightarrow> bool" where
  "is_NewService (NewService n a t i) = True"
| "is_NewService _ = False"

text \<open>The calls that construct a component: service, router, transport, server.\<close>

fun is_construction :: "event \<Rightarrow> bool" where
  "is_construction (NewService n a t i) = True"
| "is_construction (NewRouter i a n r) = True"
| "is_construction (NewTransport as) = True"
| "is_construction NewServer = True"
| "is_construction _ = False"

definition is_closing :: "event \<Rightarrow> bool" where
  "is_closing ev = (\<not> is_PluginInit ev \<and> \<not> is_CtxString ev \<and> \<not> is_construction ev)"

text \<open>\<open>precedes P Q t\<close>: in \<open>t\<close>, no event satisfying \<open>P\<close> comes after one satisfying \<open>Q\<close>.\<close>

fun precedes :: "('a \<Rightarrow> bool) \<Rightarrow> ('a \<Rightarrow> bool) \<Rightarrow> 'a list \<Rightarrow> bool" where
  "precedes P Q [] = True"
| "precedes P Q (x # xs) = ((Q x \<longrightarrow> \<not> list_ex P xs) \<and> precedes P Q xs)"

text \<open>
  The lookups of one conditional of lines 81-92: the test reads \<open>k\<close>, and the assignment
  reads \<open>k'\<close> when the test succeeds.
\<close>

definition reads :: "context \<Rightarrow> string \<Rightarrow> string \<Rightarrow> event list" where
  "reads ctx k k' = CtxString k # (if ctx_String ctx k \<noteq> [] then [CtxString k'] else [])"

definition resolve_trace :: "context \<Rightarrow> event list" where
  "resolve_trace ctx =
     reads ctx ''server_name'' ''server_name'' @ reads ctx ''address'' ''address'' @
     reads ctx ''router_address'' ''router'' @ reads ctx ''network_address'' ''network''"

text \<open>The events of \<open>run\<close> up to and including the call of \<open>router.Start\<close>.\<close>

definition setup_events :: "env \<Rightarrow> context \<Rightarrow> plugin list \<Rightarrow> proc \<Rightarrow> event list" where
  "setup_events e ctx ps s =
     LogInit # map (PluginInit \<circ> p_String) ps @ resolve_trace ctx @
     [CtxInt ''register_ttl'', CtxInt ''register_interval'',
      NewService (Name (resolve ctx s)) (Address (resolve ctx s))
        (ctx_Int ctx ''register_ttl'' * Second) (ctx_Int ctx ''register_interval'' * Second),
      NewRouter (server_Id e) (Router (resolve ctx s)) (Network (resolve ctx s))
        (client_Registry e),
      NewTransport [Network (resolve ctx s)], NewServer,
      LogInfo ''starting micro server'', RouterStart]"

subsection \<open>Sample inputs\<close>

definition sample_env :: "string option \<Rightarrow> string option \<Rightarrow> string option \<Rightarrow> env" where
  "sample_env a b c =
     \<lparr>router_Start = a, service_Run = b, router_Stop = c, server_Id = ''server-1'',
      client_Registry = ''mdns''\<rparr>"

definition sample_plugin :: "string \<Rightarrow> flag list \<Rightarrow> command list \<Rightarrow> plugin" where
  "sample_plugin n fs cs = \<lparr>p_String = n, p_Flags = fs, p_Commands = cs, p_Init = None\<rparr>"

section \<open>Properties\<close>

subsection \<open>Traces\<close>

lemma precedes_append:
  "precedes P Q (xs @ ys) =
     (precedes P Q xs \<and> precedes P Q ys \<and> (list_ex Q xs \<longrightarrow> \<not> list_ex P ys))"
  by (induction xs) auto

lemma precedes_without:
  "\<not> list_ex P xs \<or> \<not> list_ex Q xs \<Longrightarrow> precedes P Q xs"
  by (induction xs) auto

lemma emit_simps [simp]:
  "trace (emit ev s) = trace s @ [ev]" "Name (emit ev s) = Name s"
  "Address (emit ev s) = Address s" "Router (emit ev s) = Router s"
  "Network (emit ev s) = Network s"
  by (simp_all add: emit_def)

subsection \<open>Plugin initialisation and resolution\<close>

lemma init_plugins_eq:
  "init_plugins ctx ps s = s\<lparr>trace := trace s @ map (PluginInit \<circ> p_String) ps\<rparr>"
  by (induction ps arbitrary: s) (simp_all add: plugin_Init_def emit_def)

lemmas step_defs = lookup_String_def emit_def Let_def split_def reads_def

lemma resolve_Name_eq:
  "resolve_Name ctx s =
     s\<lparr>Name := (if ctx_String ctx ''server_name'' \<noteq> [] then ctx_String ctx ''server_name''
                else Name s),
       trace := trace s @ reads ctx ''server_name'' ''server_name''\<rparr>"
  by (simp add: resolve_Name_def step_defs)

lemma resolve_Address_eq:
  "resolve_Address ctx s =
     s\<lparr>Address := (if ctx_String ctx ''address'' \<noteq> [] then ctx_String ctx ''address''
                   else Address s),
       trace := trace s @ reads ctx ''address'' ''address''\<rparr>"
  by (simp add: resolve_Address_def step_defs)

lemma resolve_Router_eq:
  "resolve_Router ctx s =
     s\<lparr>Router := (if ctx_String ctx ''router_address'' \<noteq> [] then ctx_String ctx ''router''
                  else Router s),
       trace := trace s @ reads ctx ''router_address'' ''router''\<rparr>"
  by (simp add: resolve_Router_def step_defs)

lemma resolve_Network_eq:
  "resolve_Network ctx s =
     s\<lparr>Network := (if ctx_String ctx ''network_address'' \<noteq> [] then ctx_String ctx ''network''
                   else Network s),
       trace := trace s @ reads ctx ''network_address'' ''network''\<rparr>"
  by (simp add: resolve_Network_def step_defs)

lemmas resolve_eqs = resolve_def resolve_Name_eq resolve_Address_eq resolve_Router_eq
  resolve_Network_eq

lemma resolve_Name: "Name (resolve ctx s) =
  (if ctx_String ctx ''server_name'' \<noteq> [] then ctx_String ctx ''server_name'' else Name s)"
  by (simp add: resolve_eqs)

lemma resolve_Address: "Address (resolve ctx s) =
  (if ctx_String ctx ''address'' \<noteq> [] then ctx_String ctx ''address'' else Address s)"
  by (simp add: resolve_eqs)

lemma resolve_Router: "Router (resolve ctx s) =
  (if ctx_String ctx ''router_address'' \<noteq> [] then ctx_String ctx ''router'' else Router s)"
  by (simp add: resolve_eqs)

lemma resolve_Network: "Network (resolve ctx s) =
  (if ctx_String ctx ''network_address'' \<noteq> [] then ctx_String ctx ''network'' else Network s)"
  by (simp add: resolve_eqs)

lemma resolve_trace_frame: "trace (resolve ctx s) = trace s @ resolve_trace ctx"
  by (simp add: resolve_eqs resolve_trace_def)

lemma reads_CtxString: "list_all is_CtxString (reads ctx k k')"
  by (simp add: reads_def)

lemma resolve_trace_reads: "list_all is_CtxString (resolve_trace ctx)"
  by (simp add: resolve_trace_def reads_CtxString)

lemma resolve_trace_first: "CtxString ''server_name'' \<in> set (resolve_trace ctx)"
  by (simp add: resolve_trace_def reads_def)

subsection \<open>The four ways through run\<close>

lemmas run_defs = run_def Let_def split_def lookup_Int_def newServer_def srv_start_def
  srv_stop_def init_plugins_eq resolve_trace_frame resolve_Name resolve_Address resolve_Router
  resolve_Network setup_events_def

lemma run_start_fails:
  assumes "router_Start e = Some m"
  shows "fst (run e ctx ps s) = Exited 1"
    and "trace (snd (run e ctx ps s)) = trace s @ setup_events e ctx ps s @
           [LogError (''failed to start: '' @ m), OsExit 1]"
  using assms by (simp_all add: run_defs)

lemma run_loop_fails:
  assumes "router_Start e = None" "service_Run e = Some m"
  shows "fst (run e ctx ps s) = Exited 1"
    and "trace (snd (run e ctx ps s)) = trace s @ setup_events e ctx ps s @
           [LogInfo ''successfully started'', ServiceRun,
            LogError (''failed with error '' @ m), OsExit 1]"
  using assms by (simp_all add: run_defs)

lemma run_stop_fails:
  assumes "router_Start e = None" "service_Run e = None" "router_Stop e = Some m"
  shows "fst (run e ctx ps s) = Exited 1"
    and "trace (snd (run e ctx ps s)) = trace s @ setup_events e ctx ps s @
           [LogInfo ''successfully started'', ServiceRun, LogInfo ''stopping server'',
            RouterStop, LogError (''failed to stop: failed to stop router: '' @ m), OsExit 1]"
  using assms by (simp_all add: run_defs)

lemma run_succeeds:
  assumes "router_Start e = None" "service_Run e = None" "router_Stop e = None"
  shows "fst (run e ctx ps s) = Returned"
    and "trace (snd (run e ctx ps s)) = trace s @ setup_events e ctx ps s @
           [LogInfo ''successfully started'', ServiceRun, LogInfo ''stopping server'',
            RouterStop, LogInfo ''successfully stopped'']"
  using assms by (simp_all add: run_defs)

lemma run_globals:
  "Name (snd (run e ctx ps s)) = Name (resolve ctx s)"
  "Address (snd (run e ctx ps s)) = Address (resolve ctx s)"
  "Router (snd (run e ctx ps s)) = Router (resolve ctx s)"
  "Network (snd (run e ctx ps s)) = Network (resolve ctx s)"
  by (cases "router_Start e"; cases "service_Run e"; cases "router_Stop e";
      simp add: run_defs)+

lemma run_trace_shape:
  "\<exists>rest. trace (snd (run e ctx ps s)) = trace s @ setup_events e ctx ps s @ rest \<and>
          list_all is_closing rest"
proof (cases "router_Start e")
  case (Some m)
  then show ?thesis by (simp add: run_start_fails is_closing_def)
next
  case None
  note start = this
  show ?thesis
  proof (cases "service_Run e")
    case (Some m)
    with start show ?thesis by (simp add: run_loop_fails is_closing_def)
  next
    case None
    note loop = this
    show ?thesis
    proof (cases "router_Stop e")
      case (Some m)
      with start loop show ?thesis by (simp add: run_stop_fails is_closing_def)
    next
      case None
      with start loop show ?thesis by (simp add: run_succeeds is_closing_def)
    qed
  qed
qed

subsection \<open>Durations\<close>

lemma seconds_exact:
  fixes n :: "64 word"
  assumes "- 9223372036 \<le> sint n" "sint n \<le> 9223372036"
  shows "sint (n * Second) = sint n * 1000000000"
proof -
  have s: "sint Second = 1000000000" by (simp add: Second_def)
  have lo: "- (2 ^ 63) \<le> sint n * 1000000000" using assms by simp
  have hi: "sint n * 1000000000 < 2 ^ 63" using assms by simp
  have "sint (n * Second) = signed_take_bit 63 (sint n * sint Second)"
    by (simp add: sint_word_ariths)
  also have "\<dots> = sint n * 1000000000"
    using lo hi by (simp add: s signed_take_bit_int_eq_self)
  finally show ?thesis .
qed

subsection \<open>Command assembly\<close>

lemma add_plugins_eq:
  "add_plugins ps c =
     Command (cmd_Name c) (cmd_Usage c) (cmd_Flags c @ concat (map p_Flags ps))
       (cmd_Subcommands c @ concat (map p_Commands ps))"
  by (induction ps arbitrary: c) (simp_all add: Let_def)

subsection \<open>Order of the events of run\<close>

lemma closing_events:
  assumes "list_all is_closing rest"
  shows "\<not> list_ex is_PluginInit rest" "\<not> list_ex is_CtxString rest"
    "\<not> list_ex is_construction rest" "filter is_PluginInit rest = []"
    "filter is_NewService rest = []"
proof -
  have c: "\<And>ev. is_NewService ev \<Longrightarrow> is_construction ev"
    by (case_tac ev) simp_all
  show "\<not> list_ex is_PluginInit rest" "\<not> list_ex is_CtxString rest"
    "\<not> list_ex is_construction rest"
    using assms by (auto simp: list_all_iff list_ex_iff is_closing_def)
  then show "filter is_PluginInit rest = []" "filter is_NewService rest = []"
    using c by (auto simp: list_ex_iff filter_empty_conv)
qed

lemma read_events:
  assumes "list_all is_CtxString xs"
  shows "\<not> list_ex is_PluginInit xs" "\<not> list_ex is_construction xs"
    "filter is_PluginInit xs = []" "filter is_NewService xs = []"
proof -
  have c: "\<And>ev. is_CtxString ev \<Longrightarrow> \<not> is_PluginInit ev \<and> \<not> is_construction ev \<and> \<not> is_NewService ev"
    by (case_tac ev) simp_all
  show "\<not> list_ex is_PluginInit xs" "\<not> list_ex is_construction xs"
    "filter is_PluginInit xs = []" "filter is_NewService xs = []"
    using assms c by (auto simp: list_all_iff list_ex_iff filter_empty_conv)
qed

lemma init_events:
  "filter is_PluginInit (map (PluginInit \<circ> p_String) ps) = map (PluginInit \<circ> p_String) ps"
  "\<not> list_ex is_CtxString (map (PluginInit \<circ> p_String) ps)"
  "\<not> list_ex is_construction (map (PluginInit \<circ> p_String) ps)"
  "filter is_NewService (map (PluginInit \<circ> p_String) ps) = []"
  by (induction ps) simp_all

lemma run_inits:
  assumes "trace s = []"
  shows "filter is_PluginInit (trace (snd (run e ctx ps s))) = map (PluginInit \<circ> p_String) ps"
proof -
  obtain rest where t: "trace (snd (run e ctx ps s)) =
      trace s @ setup_events e ctx ps s @ rest" and r: "list_all is_closing rest"
    using run_trace_shape by blast
  show ?thesis
    by (simp add: t assms setup_events_def init_events closing_events [OF r]
        read_events [OF resolve_trace_reads])
qed

lemma run_order:
  assumes "trace s = []"
  shows "precedes is_PluginInit is_CtxString (trace (snd (run e ctx ps s)))"
    and "precedes is_PluginInit is_construction (trace (snd (run e ctx ps s)))"
    and "precedes is_CtxString is_construction (trace (snd (run e ctx ps s)))"
proof -
  obtain rest where t: "trace (snd (run e ctx ps s)) =
      trace s @ setup_events e ctx ps s @ rest" and r: "list_all is_closing rest"
    using run_trace_shape by blast
  note facts = init_events closing_events [OF r] read_events [OF resolve_trace_reads]
  have i: "precedes is_PluginInit is_CtxString (map (PluginInit \<circ> p_String) ps)"
    "precedes is_PluginInit is_construction (map (PluginInit \<circ> p_String) ps)"
    "precedes is_CtxString is_construction (map (PluginInit \<circ> p_String) ps)"
    by (simp_all add: precedes_without facts)
  have v: "precedes is_PluginInit is_CtxString (resolve_trace ctx)"
    "precedes is_PluginInit is_construction (resolve_trace ctx)"
    "precedes is_CtxString is_construction (resolve_trace ctx)"
    by (simp_all add: precedes_without facts)
  have c: "precedes is_PluginInit is_CtxString rest"
    "precedes is_PluginInit is_construction rest"
    "precedes is_CtxString is_construction rest"
    by (simp_all add: precedes_without facts)
  show "precedes is_PluginInit is_CtxString (trace (snd (run e ctx ps s)))"
    by (simp add: t assms setup_events_def precedes_append facts i v c)
  show "precedes is_PluginInit is_construction (trace (snd (run e ctx ps s)))"
    by (simp add: t assms setup_events_def precedes_append facts i v c)
  show "precedes is_CtxString is_construction (trace (snd (run e ctx ps s)))"
    by (simp add: t assms setup_events_def precedes_append facts i v c)
qed

lemma run_NewService:
  assumes "trace s = []"
  shows "filter is_NewService (trace (snd (run e ctx ps s))) =
     [NewService (Name (resolve ctx s)) (Address (resolve ctx s))
        (ctx_Int ctx ''register_ttl'' * Second) (ctx_Int ctx ''register_interval'' * Second)]"
proof -
  obtain rest where t: "trace (snd (run e ctx ps s)) =
      trace s @ setup_events e ctx ps s @ rest" and r: "list_all is_closing rest"
    using run_trace_shape by blast
  show ?thesis
    by (simp add: t assms setup_events_def init_events closing_events [OF r]
        read_events [OF resolve_trace_reads])
qed

subsection \<open>Outcome of the action and resolved values\<close>

lemma setup_events_lifecycle:
  "RouterStop \<notin> set (setup_events e ctx ps s)" "ServiceRun \<notin> set (setup_events e ctx ps s)"
proof -
  have r: "\<And>ev. ev \<in> set (resolve_trace ctx) \<Longrightarrow> is_CtxString ev"
    using resolve_trace_reads [of ctx] by (simp add: list_all_iff)
  show "RouterStop \<notin> set (setup_events e ctx ps s)"
    using r [of RouterStop] by (auto simp: setup_events_def)
  show "ServiceRun \<notin> set (setup_events e ctx ps s)"
    using r [of ServiceRun] by (auto simp: setup_events_def)
qed

lemma action_eq:
  "fst (action e ctx ps s) =
     (case fst (run e ctx ps s) of Exited n \<Rightarrow> ProcessExited n | Returned \<Rightarrow> ActionReturned None)"
  "snd (action e ctx ps s) = snd (run e ctx ps s)"
  by (simp_all add: action_def split: prod.splits exit.splits)

lemma trace_initial: "trace initial = []"
  by (simp add: initial_def)

lemma resolved_matching_keys:
  "Name (snd (run e ctx ps initial)) =
     (if ctx_String ctx ''server_name'' \<noteq> [] then ctx_String ctx ''server_name''
      else ''go.micro.server'')"
  "Address (snd (run e ctx ps initial)) =
     (if ctx_String ctx ''address'' \<noteq> [] then ctx_String ctx ''address'' else '':8087'')"
  by (simp_all add: run_globals resolve_Name resolve_Address initial_def)

lemma resolved_defaults:
  assumes "ctx_String ctx ''server_name'' = []" "ctx_String ctx ''address'' = []"
    "ctx_String ctx ''router_address'' = []" "ctx_String ctx ''network_address'' = []"
  shows "Name (snd (run e ctx ps initial)) = ''go.micro.server''"
    and "Address (snd (run e ctx ps initial)) = '':8087''"
    and "Router (snd (run e ctx ps initial)) = '':9093''"
    and "Network (snd (run e ctx ps initial)) = ''local''"
  using assms
  by (simp_all add: run_globals resolve_Name resolve_Address resolve_Router resolve_Network
      initial_def)

lemma setup_events_counts:
  "count_list (setup_events e ctx ps s) RouterStop = 0"
  "count_list (setup_events e ctx ps s) ServiceRun = 0"
  by (simp_all add: count_list_0_iff setup_events_lifecycle)

lemma setup_events_no_lifecycle:
  "\<not> list_ex (\<lambda>ev. ev = RouterStop) (setup_events e ctx ps s)"
  "\<not> list_ex (\<lambda>ev. ev = ServiceRun) (setup_events e ctx ps s)"
  using setup_events_lifecycle [of e ctx ps s] by (auto simp: list_ex_iff)

section \<open>Claims\<close>

text \<open>
  C1. The claim: each of the four string settings takes the value of its command-line
  lookup when that is non-empty and keeps its default otherwise. For the name and the
  address this holds (\<open>resolved_matching_keys\<close>), and with all lookups empty the defaults
  are kept (\<open>resolved_defaults\<close>). For the router address and the network id the code tests
  one key and assigns the lookup of another: with \<open>router_address = ":1234"\<close> and
  \<open>network_address = "prod"\<close> given and nothing else, the resolved router address and
  network id are both the empty string, neither the given values nor the defaults.
\<close>

theorem C1_router_address_value_lost:
  "ctx_String \<lparr>strings = [(''router_address'', '':1234''), (''network_address'', ''prod'')],
      ints = []\<rparr> ''router_address'' = '':1234'' \<and>
   Router (snd (run (sample_env None None None)
      \<lparr>strings = [(''router_address'', '':1234''), (''network_address'', ''prod'')],
        ints = []\<rparr> [] initial)) = [] \<and>
   Network (snd (run (sample_env None None None)
      \<lparr>strings = [(''router_address'', '':1234''), (''network_address'', ''prod'')],
        ints = []\<rparr> [] initial)) = []"
  by (simp add: run_globals resolve_Router resolve_Network ctx_String_def)




text \<open>
  C3, as stated: configuration resolution completes before any plugin's \<open>Init\<close> is
  invoked. With one registered plugin, a string lookup of the resolution comes after the
  plugin's \<open>Init\<close>.
\<close>

theorem C3_counterexample:
  "\<not> precedes is_CtxString is_PluginInit
       (trace (snd (run (sample_env None None None) \<lparr>strings = [], ints = []\<rparr>
          [sample_plugin ''auth'' [] []] initial)))"
  by (simp add: run_succeeds sample_env_def sample_plugin_def setup_events_def resolve_trace_def
      reads_def ctx_String_def trace_initial)

text \<open>
  C3, amended: \<open>Init\<close> is invoked exactly once per registered plugin, in registration
  order, before configuration resolution begins and before any component (service, router,
  transport, server) is constructed; resolution in turn precedes every construction.
\<close>

theorem C3_plugins_initialised_first:
  "filter is_PluginInit (trace (snd (run e ctx ps initial))) = map (PluginInit \<circ> p_String) ps \<and>
   precedes is_PluginInit is_CtxString (trace (snd (run e ctx ps initial))) \<and>
   precedes is_PluginInit is_construction (trace (snd (run e ctx ps initial))) \<and>
   precedes is_CtxString is_construction (trace (snd (run e ctx ps initial)))"
  by (simp add: run_inits run_order trace_initial)

theorem C3_plugins_initialised_first_witness:
  "take 4 (trace (snd (run (sample_env None None None) \<lparr>strings = [], ints = []\<rparr>
      [sample_plugin ''auth'' [] [], sample_plugin ''trace'' [] []] initial))) =
     [LogInit, PluginInit ''auth'', PluginInit ''trace'', CtxString ''server_name''] \<and>
   filter is_PluginInit (trace (snd (run (sample_env None None None) \<lparr>strings = [], ints = []\<rparr>
      [sample_plugin ''auth'' [] [], sample_plugin ''trace'' [] []] initial))) =
     [PluginInit ''auth'', PluginInit ''trace''] \<and>
   precedes is_PluginInit is_CtxString (trace (snd (run (sample_env None None None)
      \<lparr>strings = [], ints = []\<rparr>
      [sample_plugin ''auth'' [] [], sample_plugin ''trace'' [] []] initial))) \<and>
   precedes is_PluginInit is_construction (trace (snd (run (sample_env None None None)
      \<lparr>strings = [], ints = []\<rparr>
      [sample_plugin ''auth'' [] [], sample_plugin ''trace'' [] []] initial)))"
  using C3_plugins_initialised_first [of "sample_env None None None"
      "\<lparr>strings = [], ints = []\<rparr>" "[sample_plugin ''auth'' [] [], sample_plugin ''trace'' [] []]"]
  by (simp add: run_succeeds sample_env_def sample_plugin_def setup_events_def resolve_trace_def
      reads_def ctx_String_def trace_initial)

text \<open>
  C4: when the router starts and the service's run loop returns an error, the error is
  logged and the process exits with status 1; the run loop was entered, and the router's
  \<open>Stop\<close> is never called.
\<close>

theorem C4_run_error_skips_stop:
  assumes "router_Start e = None" and "service_Run e = Some m"
  shows "fst (action e ctx ps initial) = ProcessExited 1 \<and>
         ServiceRun \<in> set (trace (snd (run e ctx ps initial))) \<and>
         RouterStop \<notin> set (trace (snd (run e ctx ps initial))) \<and>
         LogError (''failed with error '' @ m) \<in> set (trace (snd (run e ctx ps initial))) \<and>
         last (trace (snd (run e ctx ps initial))) = OsExit 1"
  using assms
  by (simp add: action_eq run_loop_fails trace_initial setup_events_lifecycle)

theorem C4_run_error_skips_stop_witness:
  "router_Start (sample_env None (Some ''signal: killed'') None) = None \<and>
   service_Run (sample_env None (Some ''signal: killed'') None) = Some ''signal: killed'' \<and>
   fst (action (sample_env None (Some ''signal: killed'') None) \<lparr>strings = [], ints = []\<rparr> []
      initial) = ProcessExited 1 \<and>
   RouterStop \<notin> set (trace (snd (run (sample_env None (Some ''signal: killed'') None)
      \<lparr>strings = [], ints = []\<rparr> [] initial))) \<and>
   LogError ''failed with error signal: killed'' \<in> set (trace (snd (run
      (sample_env None (Some ''signal: killed'') None) \<lparr>strings = [], ints = []\<rparr> [] initial)))"
  using C4_run_error_skips_stop [of "sample_env None (Some ''signal: killed'') None"
      "''signal: killed''" "\<lparr>strings = [], ints = []\<rparr>" "[]"]
  by (simp add: sample_env_def)

text \<open>
  C5: when the router starts and the run loop returns without error, the router's \<open>Stop\<close>
  is called exactly once, after the run loop; the action returns \<open>nil\<close> exactly when
  \<open>Stop\<close> succeeds; when \<open>Stop\<close> fails with message \<open>m\<close>, \<open>stop\<close> returns the
  wrapped error \<open>failed to stop router: m\<close>, which is logged, and the process exits with
  status 1.
\<close>

theorem C5_stop_after_successful_run:
  assumes "router_Start e = None" and "service_Run e = None"
  shows "count_list (trace (snd (run e ctx ps initial))) RouterStop = 1 \<and>
         count_list (trace (snd (run e ctx ps initial))) ServiceRun = 1 \<and>
         precedes (\<lambda>ev. ev = ServiceRun) (\<lambda>ev. ev = RouterStop)
           (trace (snd (run e ctx ps initial))) \<and>
         (fst (action e ctx ps initial) = ActionReturned None \<longleftrightarrow> router_Stop e = None) \<and>
         (\<forall>m. router_Stop e = Some m \<longrightarrow>
            fst (srv_stop e s) = Some (''failed to stop router: '' @ m) \<and>
            LogError (''failed to stop: failed to stop router: '' @ m)
              \<in> set (trace (snd (run e ctx ps initial))) \<and>
            last (trace (snd (run e ctx ps initial))) = OsExit 1 \<and>
            fst (action e ctx ps initial) = ProcessExited 1)"
proof (cases "router_Stop e")
  case None
  with assms show ?thesis
    by (simp add: action_eq run_succeeds trace_initial setup_events_counts precedes_append
        precedes_without setup_events_no_lifecycle)
next
  case (Some m)
  with assms show ?thesis
    by (simp add: action_eq run_stop_fails trace_initial setup_events_counts precedes_append
        precedes_without setup_events_no_lifecycle srv_stop_def)
qed

theorem C5_stop_after_successful_run_witness:
  "router_Start (sample_env None None (Some ''timeout'')) = None \<and>
   service_Run (sample_env None None (Some ''timeout'')) = None \<and>
   router_Stop (sample_env None None (Some ''timeout'')) = Some ''timeout'' \<and>
   count_list (trace (snd (run (sample_env None None (Some ''timeout''))
      \<lparr>strings = [], ints = []\<rparr> [] initial))) RouterStop = 1 \<and>
   fst (srv_stop (sample_env None None (Some ''timeout'')) initial) =
      Some ''failed to stop router: timeout'' \<and>
   LogError ''failed to stop: failed to stop router: timeout''
      \<in> set (trace (snd (run (sample_env None None (Some ''timeout''))
          \<lparr>strings = [], ints = []\<rparr> [] initial))) \<and>
   fst (action (sample_env None None (Some ''timeout'')) \<lparr>strings = [], ints = []\<rparr> []
      initial) = ProcessExited 1 \<and>
   router_Stop (sample_env None None None) = None \<and>
   count_list (trace (snd (run (sample_env None None None)
      \<lparr>strings = [], ints = []\<rparr> [] initial))) RouterStop = 1 \<and>
   fst (action (sample_env None None None) \<lparr>strings = [], ints = []\<rparr> [] initial) =
      ActionReturned None"
  using C5_stop_after_successful_run [of "sample_env None None (Some ''timeout'')"
      "\<lparr>strings = [], ints = []\<rparr>" "[]" initial]
    C5_stop_after_successful_run [of "sample_env None None None"
      "\<lparr>strings = [], ints = []\<rparr>" "[]" initial]
  by (simp add: sample_env_def)

text \<open>
  C6: when the router's \<open>Start\<close> returns an error, neither the router's \<open>Stop\<close> nor the
  service's run loop is called, the error is logged and the process exits with status 1.
\<close>

theorem C6_start_failure:
  assumes "router_Start e = Some m"
  shows "RouterStop \<notin> set (trace (snd (run e ctx ps initial))) \<and>
         ServiceRun \<notin> set (trace (snd (run e ctx ps initial))) \<and>
         LogError (''failed to start: '' @ m) \<in> set (trace (snd (run e ctx ps initial))) \<and>
         last (trace (snd (run e ctx ps initial))) = OsExit 1 \<and>
         fst (action e ctx ps initial) = ProcessExited 1"
  using assms
  by (simp add: action_eq run_start_fails trace_initial setup_events_lifecycle)

theorem C6_start_failure_witness:
  "router_Start (sample_env (Some ''address in use'') None None) = Some ''address in use'' \<and>
   RouterStop \<notin> set (trace (snd (run (sample_env (Some ''address in use'') None None)
      \<lparr>strings = [], ints = []\<rparr> [] initial))) \<and>
   ServiceRun \<notin> set (trace (snd (run (sample_env (Some ''address in use'') None None)
      \<lparr>strings = [], ints = []\<rparr> [] initial))) \<and>
   fst (action (sample_env (Some ''address in use'') None None) \<lparr>strings = [], ints = []\<rparr> []
      initial) = ProcessExited 1"
  using C6_start_failure [of "sample_env (Some ''address in use'') None None"
      "''address in use''" "\<lparr>strings = [], ints = []\<rparr>" "[]"]
  by (simp add: sample_env_def)

text \<open>
  C7, as stated: the registration TTL passed to the service is always the \<open>register_ttl\<close>
  lookup taken as that many seconds. For the lookup 9223372037 the product with
  \<open>time.Second\<close> leaves the range of \<open>int64\<close>: the duration passed is negative,
  -9223372036709551616 ns.
\<close>

theorem C7_counterexample:
  "ctx_Int \<lparr>strings = [], ints = [(''register_ttl'', 9223372037)]\<rparr> ''register_ttl'' =
     9223372037 \<and>
   filter is_NewService (trace (snd (run (sample_env None None None)
      \<lparr>strings = [], ints = [(''register_ttl'', 9223372037)]\<rparr> [] initial))) =
     [NewService ''go.micro.server'' '':8087'' (9223372037 * Second) 0] \<and>
   sint (9223372037 * Second) = - 9223372036709551616 \<and>
   sint (9223372037 * Second) \<noteq> 9223372037 * 1000000000"
  by (simp add: run_NewService trace_initial resolve_Name resolve_Address ctx_Int_def
      ctx_String_def initial_def Second_def)

text \<open>
  C7, amended: whatever the package variables hold, the service is constructed once, with
  the TTL \<open>ctx.Int("register_ttl") * time.Second\<close> and the interval
  \<open>ctx.Int("register_interval") * time.Second\<close> in 64-bit arithmetic, read
  unconditionally; a lookup \<open>N\<close> with \<open>-9223372036 \<le> N \<le> 9223372036\<close> yields exactly
  \<open>N\<close> seconds (\<open>N * 10^9\<close> ns), and a lookup that is not set yields 0.
\<close>

theorem C7_registration_durations:
  assumes "trace s = []"
  shows "filter is_NewService (trace (snd (run e ctx ps s))) =
           [NewService (Name (snd (run e ctx ps s))) (Address (snd (run e ctx ps s)))
              (ctx_Int ctx ''register_ttl'' * Second)
              (ctx_Int ctx ''register_interval'' * Second)] \<and>
         (\<forall>k. - 9223372036 \<le> sint (ctx_Int ctx k) \<and> sint (ctx_Int ctx k) \<le> 9223372036 \<longrightarrow>
            sint (ctx_Int ctx k * Second) = sint (ctx_Int ctx k) * 1000000000) \<and>
         (\<forall>k. map_of (ints ctx) k = None \<longrightarrow> ctx_Int ctx k * Second = 0)"
  using assms by (simp add: run_NewService run_globals seconds_exact ctx_Int_def)

theorem C7_registration_durations_witness:
  "trace initial = [] \<and>
   filter is_NewService (trace (snd (run (sample_env None None None)
      \<lparr>strings = [], ints = [(''register_ttl'', 30)]\<rparr> [] initial))) =
     [NewService ''go.micro.server'' '':8087'' (30 * Second) 0] \<and>
   sint (ctx_Int \<lparr>strings = [], ints = [(''register_ttl'', 30)]\<rparr> ''register_ttl'') = 30 \<and>
   sint (ctx_Int \<lparr>strings = [], ints = [(''register_ttl'', 30)]\<rparr> ''register_ttl'' * Second) =
     30000000000 \<and>
   map_of (ints \<lparr>strings = [], ints = [(''register_ttl'', 30)]\<rparr>) ''register_interval'' = None \<and>
   ctx_Int \<lparr>strings = [], ints = [(''register_ttl'', 30)]\<rparr> ''register_interval'' * Second = 0"
  using C7_registration_durations [of initial "sample_env None None None"
      "\<lparr>strings = [], ints = [(''register_ttl'', 30)]\<rparr>" "[]"]
  by (simp add: trace_initial run_globals resolve_Name resolve_Address ctx_Int_def
      ctx_String_def initial_def Second_def)

text \<open>
  C8: for every list of plugins, \<open>Commands\<close> returns the single command \<open>server\<close> whose
  flags are the three base flags (\<open>address\<close>, \<open>router_address\<close>, \<open>network_address\<close>)
  followed by the plugins' flags in registration order, duplicates kept, and whose
  sub-commands are the plugins' commands in registration order; every flag and command of
  every plugin is present.
\<close>

theorem C8_command_assembly:
  "Commands ps =
     [Command ''server'' ''Run the micro network server''
        (base_Flags @ concat (map p_Flags ps)) (concat (map p_Commands ps))] \<and>
   map flag_Name base_Flags = [''address'', ''router_address'', ''network_address''] \<and>
   (\<forall>p \<in> set ps.
      set (p_Flags p) \<subseteq> set (cmd_Flags (hd (Commands ps))) \<and>
      set (p_Commands p) \<subseteq> set (cmd_Subcommands (hd (Commands ps))))"
  by (auto simp: Commands_def add_plugins_eq base_command_def base_Flags_def)

theorem C8_command_assembly_witness:
  "Commands
     [sample_plugin ''auth'' [OtherFlag ''token''] [Command ''login'' ''Log in'' [] []],
      sample_plugin ''audit'' [OtherFlag ''token'', OtherFlag ''sink'']
        [Command ''dump'' ''Dump the log'' [] []]] =
     [Command ''server'' ''Run the micro network server''
        (base_Flags @ [OtherFlag ''token'', OtherFlag ''token'', OtherFlag ''sink''])
        [Command ''login'' ''Log in'' [] [], Command ''dump'' ''Dump the log'' [] []]] \<and>
   sample_plugin ''audit'' [OtherFlag ''token'', OtherFlag ''sink'']
        [Command ''dump'' ''Dump the log'' [] []]
     \<in> set [sample_plugin ''auth'' [OtherFlag ''token''] [Command ''login'' ''Log in'' [] []],
          sample_plugin ''audit'' [OtherFlag ''token'', OtherFlag ''sink'']
            [Command ''dump'' ''Dump the log'' [] []]] \<and>
   OtherFlag ''sink'' \<in> set (cmd_Flags (hd (Commands
     [sample_plugin ''auth'' [OtherFlag ''token''] [Command ''login'' ''Log in'' [] []],
      sample_plugin ''audit'' [OtherFlag ''token'', OtherFlag ''sink'']
        [Command ''dump'' ''Dump the log'' [] []]])))"
  using C8_command_assembly [of
     "[sample_plugin ''auth'' [OtherFlag ''token''] [Command ''login'' ''Log in'' [] []],
       sample_plugin ''audit'' [OtherFlag ''token'', OtherFlag ''sink'']
         [Command ''dump'' ''Dump the log'' [] []]]"]
  by (simp add: sample_plugin_def)

text \<open>
  C9: \<open>server_name\<close> is not the name of any of the three base flags; \<open>run\<close> looks it
  up, and the resolved name, the one the service is constructed with, is that lookup when
  it is non-empty and \<open>go.micro.server\<close> otherwise.
\<close>

theorem C9_server_name_lookup:
  "''server_name'' \<notin> set (map flag_Name (cmd_Flags base_command)) \<and>
   CtxString ''server_name'' \<in> set (trace (snd (run e ctx ps initial))) \<and>
   Name (snd (run e ctx ps initial)) =
     (if ctx_String ctx ''server_name'' \<noteq> [] then ctx_String ctx ''server_name''
      else ''go.micro.server'') \<and>
   filter is_NewService (trace (snd (run e ctx ps initial))) =
     [NewService (Name (snd (run e ctx ps initial))) (Address (snd (run e ctx ps initial)))
        (ctx_Int ctx ''register_ttl'' * Second) (ctx_Int ctx ''register_interval'' * Second)]"
proof -
  obtain rest where t: "trace (snd (run e ctx ps initial)) =
      trace initial @ setup_events e ctx ps initial @ rest"
    using run_trace_shape by blast
  have flags: "''server_name'' \<notin> set (map flag_Name (cmd_Flags base_command))"
    by (simp add: base_command_def base_Flags_def)
  have read: "CtxString ''server_name'' \<in> set (trace (snd (run e ctx ps initial)))"
    by (simp add: t setup_events_def resolve_trace_first)
  have service: "filter is_NewService (trace (snd (run e ctx ps initial))) =
     [NewService (Name (snd (run e ctx ps initial))) (Address (snd (run e ctx ps initial)))
        (ctx_Int ctx ''register_ttl'' * Second) (ctx_Int ctx ''register_interval'' * Second)]"
    by (simp add: run_NewService trace_initial run_globals)
  from flags read service show ?thesis
    using resolved_matching_keys(1) [of e ctx ps] by blast
qed

theorem C9_server_name_lookup_witness:
  "ctx_String \<lparr>strings = [(''server_name'', ''go.micro.edge'')], ints = []\<rparr> ''server_name'' \<noteq> [] \<and>
   Name (snd (run (sample_env None None None)
      \<lparr>strings = [(''server_name'', ''go.micro.edge'')], ints = []\<rparr> [] initial)) =
     ''go.micro.edge'' \<and>
   filter is_NewService (trace (snd (run (sample_env None None None)
      \<lparr>strings = [(''server_name'', ''go.micro.edge'')], ints = []\<rparr> [] initial))) =
     [NewService ''go.micro.edge'' '':8087'' 0 0] \<and>
   ctx_String \<lparr>strings = [], ints = []\<rparr> ''server_name'' = [] \<and>
   Name (snd (run (sample_env None None None) \<lparr>strings = [], ints = []\<rparr> [] initial)) =
     ''go.micro.server''"
  using C9_server_name_lookup [of "sample_env None None None"
      "\<lparr>strings = [(''server_name'', ''go.micro.edge'')], ints = []\<rparr>" "[]"]
    C9_server_name_lookup [of "sample_env None None None" "\<lparr>strings = [], ints = []\<rparr>" "[]"]
  by (simp add: ctx_String_def ctx_Int_def run_globals resolve_Address initial_def)

text \<open>
  C10: the action returns \<open>nil\<close> when start, run loop and stop all succeed, and otherwise
  the process ends through \<open>os.Exit(1)\<close>, the last call made; the action never returns a
  non-nil error.
\<close>

theorem C10_action_never_returns_error:
  "fst (action e ctx ps s) =
     (if router_Start e = None \<and> service_Run e = None \<and> router_Stop e = None
      then ActionReturned None else ProcessExited 1) \<and>
   (\<forall>m. fst (action e ctx ps s) \<noteq> ActionReturned (Some m)) \<and>
   (fst (action e ctx ps s) = ProcessExited 1 \<longrightarrow>
      last (trace (snd (action e ctx ps s))) = OsExit 1)"
  by (cases "router_Start e"; cases "service_Run e"; cases "router_Stop e";
      simp add: action_eq run_start_fails run_loop_fails run_stop_fails run_succeeds)

theorem C10_action_never_returns_error_witness:
  "fst (action (sample_env None None None) \<lparr>strings = [], ints = []\<rparr> [] initial) =
     ActionReturned None \<and>
   fst (action (sample_env (Some ''address in use'') None None) \<lparr>strings = [], ints = []\<rparr> []
      initial) = ProcessExited 1 \<and>
   last (trace (snd (action (sample_env (Some ''address in use'') None None)
      \<lparr>strings = [], ints = []\<rparr> [] initial))) = OsExit 1 \<and>
   fst (action (sample_env None (Some ''killed'') None) \<lparr>strings = [], ints = []\<rparr> []
      initial) = ProcessExited 1 \<and>
   fst (action (sample_env None None (Some ''timeout'')) \<lparr>strings = [], ints = []\<rparr> []
      initial) = ProcessExited 1"
  using C10_action_never_returns_error [of "sample_env None None None"
      "\<lparr>strings = [], ints = []\<rparr>" "[]" initial]
    C10_action_never_returns_error [of "sample_env (Some ''address in use'') None None"
      "\<lparr>strings = [], ints = []\<rparr>" "[]" initial]
    C10_action_never_returns_error [of "sample_env None (Some ''killed'') None"
      "\<lparr>strings = [], ints = []\<rparr>" "[]" initial]
    C10_action_never_returns_error [of "sample_env None None (Some ''timeout'')"
      "\<lparr>strings = [], ints = []\<rparr>" "[]" initial]
  by (simp add: sample_env_def)

end
